theory Spec2Isabelle
  imports Main
begin

section \<open>The equipment client (\<open>Equipos\<close>)\<close>

text \<open>
  The repository holds one React component, \<open>Equipos\<close>, in two copies
  (\<open>src/src/Equipos.js\<close> and \<open>src/unnamed/part_000\<close>).  The copies agree on every line of
  the component function except line 16, the constant \<open>baseUrl\<close>; their other differences
  are entries of the \<open>styles\<close> object, which is only ever passed to \<open>style\<close> attributes.
  The handlers are therefore embedded once, with \<open>baseUrl\<close> as a parameter, and
  instantiated at the two constants.

  Strings are lists of 8-bit characters; the one character outside ASCII that the
  handlers produce is U+00F3 in the configuration hint, written \<open>CHR 0xF3\<close>.
\<close>

subsection \<open>Component state\<close>

text \<open>A row of the table: the fields of an item that the component reads.\<close>

record equipo =
  eq_id :: nat
  eq_nombre :: string
  eq_tipo :: string
  eq_ubicacion :: string
  eq_estado :: string

text \<open>The \<open>formValues\<close> object.\<close>

record form_values =
  nombre :: string
  tipo :: string
  ubicacion :: string
  estado :: string

text \<open>
  The six \<open>useState\<close> cells of the component.  \<open>null\<close> is \<open>None\<close>.
\<close>

record state =
  equipos :: "equipo list"
  formValues :: form_values
  loading :: bool
  error :: "string option"
  success :: "string option"
  deletingId :: "nat option"

definition empty_form :: form_values where
  "empty_form = \<lparr>nombre = [], tipo = [], ubicacion = [], estado = []\<rparr>"

definition init_state :: state where
  "init_state = \<lparr>equipos = [], formValues = empty_form, loading = False,
     error = None, success = None, deletingId = None\<rparr>"

subsection \<open>The two base URLs\<close>

definition baseUrl_Equipos :: string where
  "baseUrl_Equipos = ''https://apex.oracle.com/pls/apex/rogelioaluminios/equipos/''"

definition baseUrl_part_000 :: string where
  "baseUrl_part_000 = ''https://apex.oracle.com/pls/apex/elrafas44/equipos/''"

subsection \<open>What \<open>fetch\<close> can deliver\<close>

text \<open>
  \<open>await fetch(...)\<close> either rejects (no response; the argument is the message of the
  error it rejects with) or resolves to a response with a status.  \<open>await response.json()\<close>
  either rejects (the body is not JSON; the argument is the message of that error) or
  resolves to the parsed body, of which the handlers read the fields \<open>message\<close> and
  \<open>items\<close> only; a field that is absent is \<open>None\<close>.  Bodies are JSON objects, \<open>message\<close> a
  string and \<open>items\<close> an array of rows, as the backend's interface has them.
\<close>

datatype body = Unparseable string | Json "string option" "equipo list option"

datatype fetch_result = Rejected string | Response nat body

text \<open>\<open>response.ok\<close>\<close>

definition ok :: "nat \<Rightarrow> bool" where
  "ok st = (200 \<le> st \<and> st \<le> 299)"

text \<open>The requests the handlers issue: a plain \<open>fetch(url)\<close>, or a POST of form fields.\<close>

datatype request = GET string | POST string "(string \<times> string) list"

subsection \<open>JavaScript expressions used by the handlers\<close>

text \<open>\<open>data.message || d\<close>: an absent or empty message is falsy.\<close>

definition message_or :: "string option \<Rightarrow> string \<Rightarrow> string" where
  "message_or m d = (case m of None \<Rightarrow> d | Some x \<Rightarrow> if x = [] then d else x)"

text \<open>\<open>data.items || []\<close>: an array, even an empty one, is truthy.\<close>

definition items_or :: "equipo list option \<Rightarrow> equipo list" where
  "items_or its = (case its of None \<Rightarrow> [] | Some xs \<Rightarrow> xs)"

text \<open>\<open>s.includes(p)\<close>: \<open>p\<close> occurs in \<open>s\<close> as a contiguous run.\<close>

fun includes_str :: "string \<Rightarrow> string \<Rightarrow> bool" where
  "includes_str [] p = (p = [])"
| "includes_str (c # cs) p = (take (length p) (c # cs) = p \<or> includes_str cs p)"

text \<open>The decimal rendering of a number inside a template literal.\<close>

definition digit :: "nat \<Rightarrow> char" where
  "digit d = ''0123456789'' ! (d mod 10)"

fun string_of_nat :: "nat \<Rightarrow> string" where
  "string_of_nat n = (if n < 10 then [digit n] else string_of_nat (n div 10) @ [digit n])"

declare string_of_nat.simps [simp del]

definition hint :: string where
  "hint = '' - Verifica la configuraci'' @ [CHR 0xF3] @ ''n del endpoint REST''"

subsection \<open>Suspended handlers\<close>

text \<open>
  Each handler is an \<open>async\<close> function: it runs up to its \<open>await fetch\<close>, is suspended, and
  runs on when the response is there.  (\<open>await response.json()\<close> follows \<open>await fetch\<close> with
  no state change in between, so the two are one suspension.)  A suspended handler is a
  task.  \<open>fetchEquipos\<close> is awaited by \<open>handleSubmit\<close> and by \<open>handleDelete\<close>, whose
  \<open>finally\<close> blocks run after it, and called alone by the mount effect.
\<close>

datatype caller = FromMount | FromSubmit | FromDelete

datatype task = AwaitList caller | AwaitCreate | AwaitDelete nat

subsection \<open>\<open>fetchEquipos\<close>\<close>

definition fetchEquipos_begin :: "string \<Rightarrow> caller \<Rightarrow> state \<Rightarrow> state \<times> (request \<times> task) option" where
  "fetchEquipos_begin baseUrl c s = (s\<lparr>loading := True\<rparr>, Some (GET baseUrl, AwaitList c))"

text \<open>The \<open>try\<close> block after the \<open>await\<close>: it throws (\<open>Inl\<close> the message) or completes.\<close>

definition fetchEquipos_try :: "fetch_result \<Rightarrow> state \<Rightarrow> string + state" where
  "fetchEquipos_try r s =
     (case r of
        Rejected m \<Rightarrow> Inl m
      | Response st b \<Rightarrow>
          (case b of
             Unparseable m \<Rightarrow> Inl m
           | Json msg its \<Rightarrow>
               if \<not> ok st then Inl (message_or msg ''Error al cargar equipos'')
               else Inr (s\<lparr>equipos := items_or its, error := None\<rparr>)))"

text \<open>\<open>try\<close>, \<open>catch\<close> and \<open>finally\<close> of \<open>fetchEquipos\<close>, from the response on.\<close>

definition fetchEquipos_end :: "fetch_result \<Rightarrow> state \<Rightarrow> state" where
  "fetchEquipos_end r s =
     (case fetchEquipos_try r s of
        Inl m \<Rightarrow> s\<lparr>equipos := [], error := Some m\<rparr>
      | Inr s' \<Rightarrow> s')\<lparr>loading := False\<rparr>"

subsection \<open>\<open>handleChange\<close>\<close>

datatype field = Nombre | Tipo | Ubicacion | Estado

fun handleChange :: "field \<Rightarrow> string \<Rightarrow> state \<Rightarrow> state" where
  "handleChange Nombre v s = s\<lparr>formValues := (formValues s)\<lparr>nombre := v\<rparr>\<rparr>"
| "handleChange Tipo v s = s\<lparr>formValues := (formValues s)\<lparr>tipo := v\<rparr>\<rparr>"
| "handleChange Ubicacion v s = s\<lparr>formValues := (formValues s)\<lparr>ubicacion := v\<rparr>\<rparr>"
| "handleChange Estado v s = s\<lparr>formValues := (formValues s)\<lparr>estado := v\<rparr>\<rparr>"

subsection \<open>\<open>handleSubmit\<close>\<close>

text \<open>The validation condition of lines 58 to 63: some field is empty.\<close>

definition missing_field :: "form_values \<Rightarrow> bool" where
  "missing_field f = (nombre f = [] \<or> tipo f = [] \<or> ubicacion f = [] \<or> estado f = [])"

definition form_data :: "form_values \<Rightarrow> (string \<times> string) list" where
  "form_data f = [(''nombre'', nombre f), (''tipo'', tipo f),
     (''ubicacion'', ubicacion f), (''estado'', estado f)]"

text \<open>
  The \<open>catch\<close> block: \<open>setError(error.message)\<close>, then, when the message includes
  \<open>"555"\<close>, the functional update that appends the hint to the error just set.
\<close>

definition handleSubmit_catch :: "string \<Rightarrow> state \<Rightarrow> state" where
  "handleSubmit_catch m s =
     (let s1 = s\<lparr>error := Some m\<rparr>
      in if includes_str m ''555''
         then s1\<lparr>error := Some ((case error s1 of None \<Rightarrow> ''null'' | Some prev \<Rightarrow> prev) @ hint)\<rparr>
         else s1)"

definition handleSubmit_finally :: "state \<Rightarrow> state" where
  "handleSubmit_finally s = s\<lparr>loading := False\<rparr>"

definition handleSubmit_begin :: "string \<Rightarrow> state \<Rightarrow> state \<times> (request \<times> task) option" where
  "handleSubmit_begin baseUrl s =
     (let s1 = s\<lparr>loading := True, error := None, success := None\<rparr>
      in if missing_field (formValues s)
         then (handleSubmit_finally (handleSubmit_catch ''Todos los campos son obligatorios'' s1), None)
         else (s1, Some (POST baseUrl (form_data (formValues s)), AwaitCreate)))"

text \<open>Lines 75 to 88: what the response makes the \<open>try\<close> block throw, if anything.\<close>

definition handleSubmit_try :: "fetch_result \<Rightarrow> string option" where
  "handleSubmit_try r =
     (case r of
        Rejected m \<Rightarrow> Some m
      | Response st b \<Rightarrow>
          (case b of
             Unparseable m \<Rightarrow> Some m
           | Json msg its \<Rightarrow>
               if \<not> ok st then
                 (if st = 555 then Some (message_or msg ''Error en el servidor ORDS (555)'')
                  else Some (message_or msg (''Error '' @ string_of_nat st)))
               else None))"

definition handleSubmit_resume :: "string \<Rightarrow> fetch_result \<Rightarrow> state \<Rightarrow> state \<times> (request \<times> task) option" where
  "handleSubmit_resume baseUrl r s =
     (case handleSubmit_try r of
        Some m \<Rightarrow> (handleSubmit_finally (handleSubmit_catch m s), None)
      | None \<Rightarrow>
          fetchEquipos_begin baseUrl FromSubmit
            (s\<lparr>success := Some ''Equipo registrado correctamente'', formValues := empty_form\<rparr>))"

subsection \<open>\<open>handleDelete\<close>\<close>

definition handleDelete_begin :: "string \<Rightarrow> nat \<Rightarrow> bool \<Rightarrow> state \<Rightarrow> state \<times> (request \<times> task) option" where
  "handleDelete_begin baseUrl i confirm s =
     (if \<not> confirm then (s, None)
      else (s\<lparr>deletingId := Some i, error := None, success := None\<rparr>,
            Some (POST (baseUrl @ ''?id='' @ string_of_nat i)
                    [(''_method'', ''DELETE''), (''id'', string_of_nat i)],
                  AwaitDelete i)))"

definition handleDelete_finally :: "state \<Rightarrow> state" where
  "handleDelete_finally s = s\<lparr>deletingId := None\<rparr>"

definition handleDelete_resume :: "string \<Rightarrow> nat \<Rightarrow> fetch_result \<Rightarrow> state \<Rightarrow> state \<times> (request \<times> task) option" where
  "handleDelete_resume baseUrl i r s =
     (case r of
        Rejected m \<Rightarrow> (handleDelete_finally (s\<lparr>error := Some m\<rparr>), None)
      | Response st b \<Rightarrow>
          if \<not> ok st then (handleDelete_finally (s\<lparr>error := Some ''Error al eliminar equipo''\<rparr>), None)
          else fetchEquipos_begin baseUrl FromDelete
                 (s\<lparr>success := Some ''Equipo eliminado correctamente'',
                    equipos := filter (\<lambda>e. eq_id e \<noteq> i) (equipos s)\<rparr>))"

subsection \<open>Running a suspended handler on\<close>

text \<open>
  \<open>fetchEquipos\<close> catches everything it throws, so the handler that awaits it goes on to
  its own \<open>finally\<close> block.
\<close>

fun resume :: "string \<Rightarrow> task \<Rightarrow> fetch_result \<Rightarrow> state \<Rightarrow> state \<times> (request \<times> task) option" where
  "resume baseUrl (AwaitList FromMount) r s = (fetchEquipos_end r s, None)"
| "resume baseUrl (AwaitList FromSubmit) r s = (handleSubmit_finally (fetchEquipos_end r s), None)"
| "resume baseUrl (AwaitList FromDelete) r s = (handleDelete_finally (fetchEquipos_end r s), None)"
| "resume baseUrl AwaitCreate r s = handleSubmit_resume baseUrl r s"
| "resume baseUrl (AwaitDelete i) r s = handleDelete_resume baseUrl i r s"

subsection \<open>The component as an event-driven machine\<close>

text \<open>
  A configuration is the state and the suspended handlers, oldest first.  An event is the
  mount effect, a user action, or the arrival of the response to the \<open>n\<close>-th pending
  request.  A step returns the new configuration and the request it issued, if any.
\<close>

datatype event =
    Mount
  | Change field string
  | Submit
  | Delete nat bool
  | Reply nat fetch_result

type_synonym config = "state \<times> task list"

definition emit :: "task list \<Rightarrow> state \<times> (request \<times> task) option \<Rightarrow> config \<times> request list" where
  "emit ts out =
     (case snd out of
        None \<Rightarrow> ((fst out, ts), [])
      | Some (rq, t) \<Rightarrow> ((fst out, ts @ [t]), [rq]))"

fun step :: "string \<Rightarrow> event \<Rightarrow> config \<Rightarrow> config \<times> request list" where
  "step baseUrl Mount (s, ts) = emit ts (fetchEquipos_begin baseUrl FromMount s)"
| "step baseUrl (Change f v) (s, ts) = ((handleChange f v s, ts), [])"
| "step baseUrl Submit (s, ts) = emit ts (handleSubmit_begin baseUrl s)"
| "step baseUrl (Delete i confirm) (s, ts) = emit ts (handleDelete_begin baseUrl i confirm s)"
| "step baseUrl (Reply n r) (s, ts) =
     (if n < length ts
      then emit (take n ts @ drop (Suc n) ts) (resume baseUrl (ts ! n) r s)
      else ((s, ts), []))"

fun run :: "string \<Rightarrow> event list \<Rightarrow> config \<Rightarrow> config \<times> request list" where
  "run baseUrl [] c = (c, [])"
| "run baseUrl (e # es) c =
     (let (c1, rs1) = step baseUrl e c; (c2, rs2) = run baseUrl es c1 in (c2, rs1 @ rs2))"

subsection \<open>Notions used to state the properties\<close>

text \<open>
  The events that call a handler which may issue a request, as opposed to typing into the
  form and to the arrival of a response.
\<close>

fun operation :: "event \<Rightarrow> bool" where
  "operation Mount = True"
| "operation Submit = True"
| "operation (Delete i confirm) = True"
| "operation (Change f v) = False"
| "operation (Reply n r) = False"

text \<open>
  A sequence of events in which operations do not overlap: the mount effect and the user
  start an operation only while no request is outstanding.
\<close>

fun sequential :: "string \<Rightarrow> event list \<Rightarrow> config \<Rightarrow> bool" where
  "sequential baseUrl [] c = True"
| "sequential baseUrl (e # es) c =
     ((operation e \<longrightarrow> snd c = []) \<and> sequential baseUrl es (fst (step baseUrl e c)))"

text \<open>The outstanding requests that \<open>loading\<close> covers: all but the POST of a delete.\<close>

fun shows_busy :: "task \<Rightarrow> bool" where
  "shows_busy (AwaitList c) = True"
| "shows_busy AwaitCreate = True"
| "shows_busy (AwaitDelete i) = False"

text \<open>
  At most one request is outstanding, and \<open>loading\<close> tells whether it is one that
  \<open>loading\<close> covers.
\<close>

definition busy_inv :: "config \<Rightarrow> bool" where
  "busy_inv c = (length (snd c) \<le> 1 \<and> loading (fst c) = (\<exists>t\<in>set (snd c). shows_busy t))"

text \<open>The same request against another base URL.\<close>

fun rebase :: "string \<Rightarrow> string \<Rightarrow> request \<Rightarrow> request" where
  "rebase u u' (GET x) = GET (u' @ drop (length u) x)"
| "rebase u u' (POST x fs) = POST (u' @ drop (length u) x) fs"

section \<open>Properties\<close>

lemmas handler_defs = fetchEquipos_begin_def fetchEquipos_try_def fetchEquipos_end_def
  handleSubmit_catch_def handleSubmit_finally_def handleSubmit_begin_def handleSubmit_try_def
  handleSubmit_resume_def handleDelete_begin_def handleDelete_finally_def handleDelete_resume_def
  emit_def

subsection \<open>Decimal strings and the text \<open>555\<close>\<close>

lemma below_ten:
  "k < (10::nat) \<Longrightarrow>
   k = 0 \<or> k = 1 \<or> k = 2 \<or> k = 3 \<or> k = 4 \<or> k = 5 \<or> k = 6 \<or> k = 7 \<or> k = 8 \<or> k = 9"
  by arith

lemma digit_five: "(digit d = CHR ''5'') = (d mod 10 = 5)"
proof -
  have "d mod 10 < 10" by simp
  from below_ten[OF this] show ?thesis
    unfolding digit_def by (elim disjE) simp_all
qed

lemma string_of_nat_1: "n < 10 \<Longrightarrow> string_of_nat n = [digit n]"
  by (simp add: string_of_nat.simps)

lemma string_of_nat_2:
  "10 \<le> n \<Longrightarrow> n < 100 \<Longrightarrow> string_of_nat n = [digit (n div 10), digit n]"
  by (subst string_of_nat.simps) (simp add: string_of_nat_1)

lemma string_of_nat_3:
  "100 \<le> n \<Longrightarrow> n < 1000 \<Longrightarrow>
   string_of_nat n = [digit (n div 100), digit (n div 10), digit n]"
  by (subst string_of_nat.simps) (simp add: string_of_nat_2 div_mult2_eq[symmetric])

lemma three_fives:
  assumes "st < (1000::nat)" "st div 100 mod 10 = 5" "st div 10 mod 10 = 5" "st mod 10 = 5"
  shows "st = 555"
proof -
  have "st div 100 < 10" using assms(1) by simp
  then have a: "st div 100 = 5" using assms(2) by simp
  have "st div 100 = st div 10 div 10" by (simp add: div_mult2_eq[symmetric])
  then have b: "st div 10 = 10 * (st div 100) + st div 10 mod 10" by simp
  have c: "st = 10 * (st div 10) + st mod 10" by simp
  show ?thesis using a b c assms(3,4) by simp
qed

text \<open>
  A status is at most 999; the fallback message of such a status holds the text \<open>555\<close>
  only when the status is 555.
\<close>

lemma error_status_555:
  assumes "st < 1000" "st \<noteq> 555"
  shows "\<not> includes_str (''Error '' @ string_of_nat st) ''555''"
proof -
  consider "st < 10" | "10 \<le> st" "st < 100" | "100 \<le> st" using not_less by blast
  then show ?thesis
  proof cases
    case 1
    then show ?thesis by (simp add: string_of_nat_1)
  next
    case 2
    then show ?thesis by (simp add: string_of_nat_2)
  next
    case 3
    have "\<not> (st div 100 mod 10 = 5 \<and> st div 10 mod 10 = 5 \<and> st mod 10 = 5)"
      using assms three_fives by blast
    with 3 assms show ?thesis by (simp add: string_of_nat_3 digit_five)
  qed
qed

subsection \<open>Running event sequences\<close>

lemma run_Cons_fst: "fst (run u (e # es) c) = fst (run u es (fst (step u e c)))"
  by (simp add: split_beta)

lemma run_Cons_snd:
  "snd (run u (e # es) c) = snd (step u e c) @ snd (run u es (fst (step u e c)))"
  by (simp add: split_beta)

subsection \<open>The invariant of \<open>loading\<close> when operations do not overlap\<close>

lemma resume_busy:
  assumes "loading s = shows_busy t"
  shows "case snd (resume url t r s) of
           None \<Rightarrow> \<not> loading (fst (resume url t r s))
         | Some (rq, t') \<Rightarrow> loading (fst (resume url t r s)) \<and> shows_busy t'"
proof (cases t)
  case (AwaitList c)
  then show ?thesis by (cases c) (simp_all add: handler_defs)
next
  case AwaitCreate
  then show ?thesis by (simp add: handler_defs Let_def split: option.split)
next
  case (AwaitDelete i)
  with assms show ?thesis by (simp add: handler_defs split: fetch_result.split)
qed

lemma step_busy_inv:
  assumes inv: "busy_inv c" and idle: "operation e \<longrightarrow> snd c = []"
  shows "busy_inv (fst (step url e c))"
proof -
  obtain s ts where c: "c = (s, ts)" by (cases c)
  from inv c have len: "length ts \<le> 1"
    and busy: "loading s = (\<exists>t\<in>set ts. shows_busy t)" by (simp_all add: busy_inv_def)
  show ?thesis
  proof (cases e)
    case Mount
    with idle c show ?thesis by (simp add: busy_inv_def handler_defs)
  next
    case (Change f v)
    with c len busy show ?thesis by (cases f) (simp_all add: busy_inv_def)
  next
    case Submit
    with idle c busy show ?thesis by (simp add: busy_inv_def handler_defs Let_def)
  next
    case (Delete i confirm)
    with idle c busy show ?thesis by (simp add: busy_inv_def handler_defs)
  next
    case (Reply n r)
    show ?thesis
    proof (cases "n < length ts")
      case False
      with Reply c len busy show ?thesis by (simp add: busy_inv_def)
    next
      case True
      with len obtain t where ts: "ts = [t]" and n: "n = 0"
        by (cases ts) auto
      from busy ts have "loading s = shows_busy t" by simp
      from resume_busy[OF this, of url r] Reply c ts n show ?thesis
        by (auto simp add: busy_inv_def emit_def split: option.splits)
    qed
  qed
qed

lemma run_busy_inv:
  "busy_inv c \<Longrightarrow> sequential url es c \<Longrightarrow> busy_inv (fst (run url es c))"
proof (induction es arbitrary: c)
  case Nil
  then show ?case by simp
next
  case (Cons e es)
  from Cons.prems have "busy_inv (fst (step url e c))"
    by (simp add: step_busy_inv)
  with Cons.prems Cons.IH[of "fst (step url e c)"] show ?case
    unfolding run_Cons_fst by simp
qed

subsection \<open>The two copies\<close>

lemma step_rebase:
  "step u' e c = (fst (step u e c), map (rebase u u') (snd (step u e c)))"
proof -
  obtain s ts where c: "c = (s, ts)" by (cases c)
  show ?thesis
  proof (cases e)
    case (Reply n r)
    show ?thesis
    proof (cases "n < length ts")
      case False
      with Reply c show ?thesis by simp
    next
      case True
      have "emit xs (resume u' t r s)
          = (fst (emit xs (resume u t r s)), map (rebase u u') (snd (emit xs (resume u t r s))))"
        for xs t
      proof (cases t)
        case (AwaitList k)
        then show ?thesis by (cases k) (simp_all add: handler_defs)
      next
        case AwaitCreate
        then show ?thesis by (simp add: handler_defs Let_def split: option.split)
      next
        case (AwaitDelete i)
        then show ?thesis by (simp add: handler_defs split: fetch_result.split)
      qed
      with Reply c True show ?thesis by simp
    qed
  qed (simp_all add: c handler_defs Let_def)
qed

lemma run_rebase:
  "fst (run u' es c) = fst (run u es c) \<and>
   snd (run u' es c) = map (rebase u u') (snd (run u es c))"
proof (induction es arbitrary: c)
  case Nil
  show ?case by simp
next
  case (Cons e es)
  have st: "fst (step u' e c) = fst (step u e c)"
    and rq: "snd (step u' e c) = map (rebase u u') (snd (step u e c))"
    by (subst step_rebase[of u' e c u], simp)+
  show ?case
    unfolding run_Cons_fst run_Cons_snd st rq using Cons.IH[of "fst (step u e c)"] by simp
qed

section \<open>The claims\<close>

text \<open>
  C1.  The claim: when \<open>create\<close> receives a 555 response whose body has a message
  (\<open>{message: "bad config"}\<close>), the error message is the server's message with the
  configuration hint appended.  The code appends the hint only when the message it caught
  includes the text \<open>555\<close>; a server message that lacks it is shown bare.  The theorem
  evaluates the code there: a complete draft is typed in and submitted, and the POST is
  answered with status 555 and that body.
\<close>

theorem create_555_server_message_without_hint:
  "error (fst (fst (run baseUrl_Equipos
      [Change Nombre ''Saw'', Change Tipo ''Tool'', Change Ubicacion ''Shelf B'',
       Change Estado ''Activo'', Submit,
       Reply 0 (Response 555 (Json (Some ''bad config'') None))] (init_state, []))))
     = Some ''bad config'' \<and>
   error (fst (fst (run baseUrl_Equipos
      [Change Nombre ''Saw'', Change Tipo ''Tool'', Change Ubicacion ''Shelf B'',
       Change Estado ''Activo'', Submit,
       Reply 0 (Response 555 (Json (Some ''bad config'') None))] (init_state, []))))
     \<noteq> Some (''bad config - Verifica la configuraci'' @ [CHR 0xF3] @ ''n del endpoint REST'')"
  by (simp add: handler_defs init_state_def empty_form_def missing_field_def form_data_def
      message_or_def ok_def)

text \<open>
  The sibling path: the same 555 response without a message gets the fallback text of
  line 85, which holds \<open>555\<close>, and so the hint.
\<close>

lemma create_555_fallback_with_hint:
  "error (fst (fst (run baseUrl_Equipos
      [Change Nombre ''Saw'', Change Tipo ''Tool'', Change Ubicacion ''Shelf B'',
       Change Estado ''Activo'', Submit,
       Reply 0 (Response 555 (Json None None))] (init_state, []))))
     = Some (''Error en el servidor ORDS (555) - Verifica la configuraci'' @ [CHR 0xF3]
             @ ''n del endpoint REST'')"
  by (simp add: handler_defs init_state_def empty_form_def missing_field_def form_data_def
      message_or_def ok_def hint_def)

text \<open>
  C2.  The claim: \<open>isBusy\<close> (\<open>loading\<close>) is true while any request is outstanding, in
  particular during the POST of a remove.  \<open>handleDelete\<close> never sets \<open>loading\<close>: after
  the list has been loaded and a delete has been confirmed, the POST is outstanding and
  \<open>loading\<close> is false.
\<close>

theorem isBusy_false_during_remove_post:
  "snd (fst (run baseUrl_Equipos
      [Mount,
       Reply 0 (Response 200 (Json None (Some [\<lparr>eq_id = 1, eq_nombre = ''Drill'',
          eq_tipo = ''Tool'', eq_ubicacion = ''Shelf A'', eq_estado = ''Activo''\<rparr>]))),
       Delete 1 True] (init_state, []))) = [AwaitDelete 1] \<and>
   \<not> loading (fst (fst (run baseUrl_Equipos
      [Mount,
       Reply 0 (Response 200 (Json None (Some [\<lparr>eq_id = 1, eq_nombre = ''Drill'',
          eq_tipo = ''Tool'', eq_ubicacion = ''Shelf A'', eq_estado = ''Activo''\<rparr>]))),
       Delete 1 True] (init_state, []))))"
  by (simp add: handler_defs init_state_def ok_def items_or_def)

text \<open>
  C2, amended.  When operations do not overlap, \<open>loading\<close> is true exactly while the GET
  of a list or the POST of a create is outstanding; the POST of a remove leaves it as it
  was, that is false, and only the list that follows a successful remove sets it.
\<close>

theorem isBusy_sequential:
  "sequential url es (init_state, []) \<Longrightarrow>
   loading (fst (fst (run url es (init_state, []))))
     = (\<exists>t\<in>set (snd (fst (run url es (init_state, [])))). shows_busy t)"
  using run_busy_inv[of "(init_state, [])" url es]
  by (simp add: busy_inv_def init_state_def)

theorem isBusy_sequential_witness:
  "sequential baseUrl_Equipos
     [Mount, Reply 0 (Response 200 (Json None None)), Change Nombre ''Saw'',
      Change Tipo ''Tool'', Change Ubicacion ''Shelf B'', Change Estado ''Activo'', Submit]
     (init_state, []) \<and>
   snd (fst (run baseUrl_Equipos
     [Mount, Reply 0 (Response 200 (Json None None)), Change Nombre ''Saw'',
      Change Tipo ''Tool'', Change Ubicacion ''Shelf B'', Change Estado ''Activo'', Submit]
     (init_state, []))) = [AwaitCreate] \<and>
   loading (fst (fst (run baseUrl_Equipos
     [Mount, Reply 0 (Response 200 (Json None None)), Change Nombre ''Saw'',
      Change Tipo ''Tool'', Change Ubicacion ''Shelf B'', Change Estado ''Activo'', Submit]
     (init_state, []))))"
proof -
  let ?es = "[Mount, Reply 0 (Response 200 (Json None None)), Change Nombre ''Saw'',
      Change Tipo ''Tool'', Change Ubicacion ''Shelf B'', Change Estado ''Activo'', Submit]"
  have h: "sequential baseUrl_Equipos ?es (init_state, [])"
    by (simp add: handler_defs)
  have p: "snd (fst (run baseUrl_Equipos ?es (init_state, []))) = [AwaitCreate]"
    by (simp add: handler_defs init_state_def empty_form_def missing_field_def ok_def)
  from h p isBusy_sequential[OF h] show ?thesis by simp
qed

text \<open>
  C3.  The claim: the two copies differ in styling only and issue the same requests.
  They also differ in \<open>baseUrl\<close>: the request of the mount effect goes to another
  address in each.
\<close>

theorem copies_requests_differ:
  "snd (run baseUrl_Equipos [Mount] (init_state, []))
     \<noteq> snd (run baseUrl_part_000 [Mount] (init_state, []))"
  by (simp add: handler_defs baseUrl_Equipos_def baseUrl_part_000_def)

text \<open>
  C3, amended.  For every sequence of events from every configuration, the two copies go
  through the same states and pending handlers, and the requests of the one are the
  requests of the other with the base URL exchanged.
\<close>

theorem copies_agree:
  "fst (run baseUrl_part_000 es c) = fst (run baseUrl_Equipos es c) \<and>
   snd (run baseUrl_part_000 es c)
     = map (rebase baseUrl_Equipos baseUrl_part_000) (snd (run baseUrl_Equipos es c))"
  using run_rebase[of baseUrl_part_000 es c baseUrl_Equipos] by simp

text \<open>
  C4.  The claim: whenever \<open>list\<close> fails, the rows become empty and the error message
  is the server's message if present, else a generic fallback.  \<open>fetchEquipos\<close> parses
  the body before it looks at the status and shows the message of whatever it catches:
  when a refresh is answered with status 502 and an HTML page, the rows are emptied, but
  the error message is the message of the parse error, not the fallback
  \<open>Error al cargar equipos\<close>.
\<close>

theorem list_failure_unparseable_body:
  "equipos (fst (fst (run baseUrl_Equipos
      [Mount,
       Reply 0 (Response 200 (Json None (Some [\<lparr>eq_id = 1, eq_nombre = ''Drill'',
          eq_tipo = ''Tool'', eq_ubicacion = ''Shelf A'', eq_estado = ''Activo''\<rparr>]))),
       Mount,
       Reply 0 (Response 502 (Unparseable ''Unexpected token < in JSON at position 0''))]
      (init_state, [])))) = [] \<and>
   error (fst (fst (run baseUrl_Equipos
      [Mount,
       Reply 0 (Response 200 (Json None (Some [\<lparr>eq_id = 1, eq_nombre = ''Drill'',
          eq_tipo = ''Tool'', eq_ubicacion = ''Shelf A'', eq_estado = ''Activo''\<rparr>]))),
       Mount,
       Reply 0 (Response 502 (Unparseable ''Unexpected token < in JSON at position 0''))]
      (init_state, []))))
     = Some ''Unexpected token < in JSON at position 0'' \<and>
   error (fst (fst (run baseUrl_Equipos
      [Mount,
       Reply 0 (Response 200 (Json None (Some [\<lparr>eq_id = 1, eq_nombre = ''Drill'',
          eq_tipo = ''Tool'', eq_ubicacion = ''Shelf A'', eq_estado = ''Activo''\<rparr>]))),
       Mount,
       Reply 0 (Response 502 (Unparseable ''Unexpected token < in JSON at position 0''))]
      (init_state, []))))
     \<noteq> Some ''Error al cargar equipos''"
  by (simp add: handler_defs init_state_def ok_def items_or_def)

text \<open>
  C4, amended.  Whenever \<open>list\<close> fails, the rows become empty whatever they were, and
  the error message is set, with three outcomes.  When \<open>fetch\<close> is rejected, it is the
  message of the error \<open>fetch\<close> rejected with.  When the body is not JSON, at any
  status, it is the message of the parse error.  When the status is outside 200 to 299
  and the body parses as JSON, it is the server's message when the body has a non-empty
  one, and \<open>Error al cargar equipos\<close> otherwise.  This holds for \<open>fetchEquipos\<close>
  whoever called it.
\<close>

theorem list_failure:
  "equipos (fst (resume url (AwaitList c) (Rejected m) s)) = [] \<and>
   error (fst (resume url (AwaitList c) (Rejected m) s)) = Some m \<and>
   equipos (fst (resume url (AwaitList c) (Response st (Unparseable m)) s)) = [] \<and>
   error (fst (resume url (AwaitList c) (Response st (Unparseable m)) s)) = Some m \<and>
   (\<not> ok st \<longrightarrow>
      equipos (fst (resume url (AwaitList c) (Response st (Json msg its)) s)) = [] \<and>
      error (fst (resume url (AwaitList c) (Response st (Json msg its)) s))
        = Some (case msg of None \<Rightarrow> ''Error al cargar equipos''
                | Some x \<Rightarrow> if x = [] then ''Error al cargar equipos'' else x))"
  by (cases c) (simp_all add: handler_defs message_or_def)

theorem list_failure_witness:
  "\<not> ok 500 \<and>
   equipos (fst (resume baseUrl_Equipos (AwaitList FromMount)
      (Response 500 (Json (Some ''ORA-00942'') None))
      (init_state\<lparr>equipos := [\<lparr>eq_id = 1, eq_nombre = ''Drill'', eq_tipo = ''Tool'',
         eq_ubicacion = ''Shelf A'', eq_estado = ''Activo''\<rparr>]\<rparr>))) = [] \<and>
   error (fst (resume baseUrl_Equipos (AwaitList FromMount)
      (Response 500 (Json (Some ''ORA-00942'') None))
      (init_state\<lparr>equipos := [\<lparr>eq_id = 1, eq_nombre = ''Drill'', eq_tipo = ''Tool'',
         eq_ubicacion = ''Shelf A'', eq_estado = ''Activo''\<rparr>]\<rparr>))) = Some ''ORA-00942''"
proof -
  have h: "\<not> ok 500" by (simp add: ok_def)
  from h list_failure[where st = 500 and msg = "Some ''ORA-00942''" and c = FromMount
      and url = baseUrl_Equipos and its = None
      and s = "init_state\<lparr>equipos := [\<lparr>eq_id = 1, eq_nombre = ''Drill'', eq_tipo = ''Tool'',
         eq_ubicacion = ''Shelf A'', eq_estado = ''Activo''\<rparr>]\<rparr>"]
  show ?thesis by simp
qed

text \<open>
  C5.  The claim: for every complete draft, a 2xx response to \<open>create\<close> sets the success
  message, empties the draft and triggers \<open>list\<close> once.  \<open>handleSubmit\<close> parses the body
  before it looks at the status, so a 2xx response whose body is not JSON (an empty body,
  say) ends in the \<open>catch\<close> block: no success message, the draft kept, no list request.
\<close>

theorem create_2xx_without_json_fails:
  "run baseUrl_Equipos [Submit, Reply 0 (Response 201 (Unparseable ''Unexpected end of JSON input''))]
     (init_state\<lparr>formValues := \<lparr>nombre = ''Saw'', tipo = ''Tool'', ubicacion = ''Shelf B'',
        estado = ''Activo''\<rparr>\<rparr>, [])
   = ((init_state\<lparr>formValues := \<lparr>nombre = ''Saw'', tipo = ''Tool'', ubicacion = ''Shelf B'',
        estado = ''Activo''\<rparr>, error := Some ''Unexpected end of JSON input''\<rparr>, []),
      [POST baseUrl_Equipos [(''nombre'', ''Saw''), (''tipo'', ''Tool''),
         (''ubicacion'', ''Shelf B''), (''estado'', ''Activo'')]])"
  by (simp add: handler_defs init_state_def missing_field_def form_data_def)

text \<open>
  C5, amended.  For every draft with all four fields non-empty, \<open>create\<close> issues one POST
  of the four fields; when the response is 2xx and its body parses as JSON, the success
  message is set, the draft is reset to empty strings and \<open>list\<close> is triggered: one GET.
  When that GET is answered, whatever the answer, no further request is issued, and the
  success message and the empty draft stand.
\<close>

theorem create_success:
  assumes "nombre (formValues s) \<noteq> []" "tipo (formValues s) \<noteq> []"
    "ubicacion (formValues s) \<noteq> []" "estado (formValues s) \<noteq> []" "ok st"
  shows "run url [Submit, Reply 0 (Response st (Json msg its))] (s, []) =
     ((s\<lparr>loading := True, error := None,
          success := Some ''Equipo registrado correctamente'',
          formValues := \<lparr>nombre = [], tipo = [], ubicacion = [], estado = []\<rparr>\<rparr>,
       [AwaitList FromSubmit]),
      [POST url [(''nombre'', nombre (formValues s)), (''tipo'', tipo (formValues s)),
                 (''ubicacion'', ubicacion (formValues s)), (''estado'', estado (formValues s))],
       GET url]) \<and>
    snd (run url [Submit, Reply 0 (Response st (Json msg its)), Reply 0 r] (s, [])) =
      [POST url [(''nombre'', nombre (formValues s)), (''tipo'', tipo (formValues s)),
                 (''ubicacion'', ubicacion (formValues s)), (''estado'', estado (formValues s))],
       GET url] \<and>
    snd (fst (run url [Submit, Reply 0 (Response st (Json msg its)), Reply 0 r] (s, []))) = [] \<and>
    success (fst (fst (run url [Submit, Reply 0 (Response st (Json msg its)), Reply 0 r] (s, []))))
      = Some ''Equipo registrado correctamente'' \<and>
    formValues (fst (fst (run url [Submit, Reply 0 (Response st (Json msg its)), Reply 0 r] (s, []))))
      = \<lparr>nombre = [], tipo = [], ubicacion = [], estado = []\<rparr>"
  using assms
  by (simp add: handler_defs missing_field_def form_data_def empty_form_def
      split: sum.split fetch_result.split body.split)

theorem create_success_witness:
  "run baseUrl_Equipos [Submit, Reply 0 (Response 201 (Json None None))]
     (init_state\<lparr>formValues := \<lparr>nombre = ''Saw'', tipo = ''Tool'', ubicacion = ''Shelf B'',
        estado = ''Activo''\<rparr>\<rparr>, [])
   = ((init_state\<lparr>loading := True, success := Some ''Equipo registrado correctamente''\<rparr>,
       [AwaitList FromSubmit]),
      [POST baseUrl_Equipos [(''nombre'', ''Saw''), (''tipo'', ''Tool''),
         (''ubicacion'', ''Shelf B''), (''estado'', ''Activo'')],
       GET baseUrl_Equipos])"
proof -
  let ?s = "init_state\<lparr>formValues := \<lparr>nombre = ''Saw'', tipo = ''Tool'',
    ubicacion = ''Shelf B'', estado = ''Activo''\<rparr>\<rparr>"
  have h: "nombre (formValues ?s) \<noteq> []" "tipo (formValues ?s) \<noteq> []"
    "ubicacion (formValues ?s) \<noteq> []" "estado (formValues ?s) \<noteq> []" "ok 201"
    by (simp_all add: ok_def)
  from create_success[OF h, of baseUrl_Equipos None None] show ?thesis
    by (simp add: init_state_def empty_form_def)
qed

text \<open>
  C6.  When a confirmed \<open>remove\<close> of a row receives a 2xx response (its body is not
  read), the success message is set, every row with that id is removed from the rows at
  once, and \<open>list\<close> is triggered: by then one POST and one GET have been issued and the
  GET is outstanding.  When the GET is answered, whatever the answer, no further request
  is issued.
\<close>

theorem remove_success:
  assumes "ok st"
  shows "run url [Delete i True, Reply 0 (Response st b)] (s, []) =
     ((s\<lparr>deletingId := Some i, error := None,
          success := Some ''Equipo eliminado correctamente'',
          equipos := filter (\<lambda>e. eq_id e \<noteq> i) (equipos s), loading := True\<rparr>,
       [AwaitList FromDelete]),
      [POST (url @ ''?id='' @ string_of_nat i)
         [(''_method'', ''DELETE''), (''id'', string_of_nat i)],
       GET url]) \<and>
    snd (run url [Delete i True, Reply 0 (Response st b), Reply 0 r] (s, [])) =
      [POST (url @ ''?id='' @ string_of_nat i)
         [(''_method'', ''DELETE''), (''id'', string_of_nat i)],
       GET url] \<and>
    snd (fst (run url [Delete i True, Reply 0 (Response st b), Reply 0 r] (s, []))) = []"
  using assms by (simp add: handler_defs)

theorem remove_success_witness:
  "ok 200 \<and>
   equipos (fst (fst (run baseUrl_Equipos [Delete 1 True, Reply 0 (Response 200 (Json None None))]
     (init_state\<lparr>equipos :=
        [\<lparr>eq_id = 1, eq_nombre = ''Drill'', eq_tipo = ''Tool'', eq_ubicacion = ''Shelf A'',
           eq_estado = ''Activo''\<rparr>,
         \<lparr>eq_id = 2, eq_nombre = ''Saw'', eq_tipo = ''Tool'', eq_ubicacion = ''Shelf B'',
           eq_estado = ''Activo''\<rparr>]\<rparr>, []))))
   = [\<lparr>eq_id = 2, eq_nombre = ''Saw'', eq_tipo = ''Tool'', eq_ubicacion = ''Shelf B'',
        eq_estado = ''Activo''\<rparr>]"
proof -
  have h: "ok 200" by (simp add: ok_def)
  from h remove_success[OF h, of baseUrl_Equipos 1 "Json None None"
      "init_state\<lparr>equipos :=
        [\<lparr>eq_id = 1, eq_nombre = ''Drill'', eq_tipo = ''Tool'', eq_ubicacion = ''Shelf A'',
           eq_estado = ''Activo''\<rparr>,
         \<lparr>eq_id = 2, eq_nombre = ''Saw'', eq_tipo = ''Tool'', eq_ubicacion = ''Shelf B'',
           eq_estado = ''Activo''\<rparr>]\<rparr>"]
  show ?thesis by simp
qed

text \<open>
  C7.  For every draft with at least one of the four fields empty, \<open>create\<close> issues no
  request and leaves the validation message as the error message.
\<close>

theorem create_validation:
  "nombre (formValues s) = [] \<or> tipo (formValues s) = [] \<or> ubicacion (formValues s) = []
     \<or> estado (formValues s) = [] \<Longrightarrow>
   step url Submit (s, ts) =
     ((s\<lparr>loading := False, error := Some ''Todos los campos son obligatorios'',
         success := None\<rparr>, ts), [])"
  by (simp add: handler_defs missing_field_def)

theorem create_validation_witness:
  "estado (formValues (init_state\<lparr>formValues := \<lparr>nombre = ''Saw'', tipo = ''Tool'',
      ubicacion = ''Shelf B'', estado = []\<rparr>\<rparr>)) = [] \<and>
   step baseUrl_Equipos Submit
     (init_state\<lparr>formValues := \<lparr>nombre = ''Saw'', tipo = ''Tool'',
        ubicacion = ''Shelf B'', estado = []\<rparr>\<rparr>, [])
   = ((init_state\<lparr>formValues := \<lparr>nombre = ''Saw'', tipo = ''Tool'',
        ubicacion = ''Shelf B'', estado = []\<rparr>,
        error := Some ''Todos los campos son obligatorios''\<rparr>, []), [])"
proof -
  let ?s = "init_state\<lparr>formValues := \<lparr>nombre = ''Saw'', tipo = ''Tool'',
    ubicacion = ''Shelf B'', estado = []\<rparr>\<rparr>"
  have h: "nombre (formValues ?s) = [] \<or> tipo (formValues ?s) = []
    \<or> ubicacion (formValues ?s) = [] \<or> estado (formValues ?s) = []" by simp
  from create_validation[OF h, of baseUrl_Equipos "[]"] show ?thesis
    by (simp add: init_state_def)
qed

text \<open>
  C8.  The claim: on a response outside 2xx with a status other than 555, the error
  message is the server's message when the body has one, and \<open>Error <status>\<close>
  otherwise.  \<open>handleSubmit\<close> parses the body before it looks at the status; when the body
  of a 500 response is not JSON (an HTML error page), the error message is the message
  of the parse error, not \<open>Error 500\<close>.
\<close>

theorem create_error_unparseable_body:
  "error (fst (fst (run baseUrl_Equipos
      [Submit, Reply 0 (Response 500 (Unparseable ''Unexpected token < in JSON at position 0''))]
      (init_state\<lparr>formValues := \<lparr>nombre = ''Saw'', tipo = ''Tool'', ubicacion = ''Shelf B'',
         estado = ''Activo''\<rparr>\<rparr>, []))))
     = Some ''Unexpected token < in JSON at position 0'' \<and>
   error (fst (fst (run baseUrl_Equipos
      [Submit, Reply 0 (Response 500 (Unparseable ''Unexpected token < in JSON at position 0''))]
      (init_state\<lparr>formValues := \<lparr>nombre = ''Saw'', tipo = ''Tool'', ubicacion = ''Shelf B'',
         estado = ''Activo''\<rparr>\<rparr>, []))))
     \<noteq> Some ''Error 500''"
  by (simp add: handler_defs init_state_def missing_field_def form_data_def)

text \<open>
  C8, amended.  When \<open>create\<close> receives a response with a status outside 2xx and other
  than 555 (a status is at most 999) whose body parses as JSON, the error message is
  \<open>Error <status>\<close> when the body has no message or an empty one, and the server's
  message when it is non-empty and does not hold the text \<open>555\<close>.
\<close>

theorem create_error_message:
  assumes "\<not> ok st" "st \<noteq> 555" "st < 1000"
  shows "error (fst (resume url AwaitCreate (Response st (Json None its)) s))
           = Some (''Error '' @ string_of_nat st) \<and>
         error (fst (resume url AwaitCreate (Response st (Json (Some []) its)) s))
           = Some (''Error '' @ string_of_nat st) \<and>
         (m \<noteq> [] \<and> \<not> includes_str m ''555'' \<longrightarrow>
            error (fst (resume url AwaitCreate (Response st (Json (Some m) its)) s)) = Some m)"
  using assms error_status_555[of st]
  by (simp add: handler_defs message_or_def Let_def del: includes_str.simps)

theorem create_error_message_witness:
  "\<not> ok 404 \<and> (404::nat) \<noteq> 555 \<and> (404::nat) < 1000 \<and>
   error (fst (resume baseUrl_Equipos AwaitCreate (Response 404 (Json None None)) init_state))
     = Some ''Error 404'' \<and>
   ''Not Found'' \<noteq> [] \<and> \<not> includes_str ''Not Found'' ''555'' \<and>
   error (fst (resume baseUrl_Equipos AwaitCreate
      (Response 404 (Json (Some ''Not Found'') None)) init_state)) = Some ''Not Found''"
proof -
  have h: "\<not> ok 404" "(404::nat) \<noteq> 555" "(404::nat) < 1000" by (simp_all add: ok_def)
  have g: "''Not Found'' \<noteq> [] \<and> \<not> includes_str ''Not Found'' ''555''" by simp
  have d: "string_of_nat 404 = ''404''" by (simp add: string_of_nat_3 digit_def)
  from h g create_error_message[OF h, of baseUrl_Equipos None init_state "''Not Found''"]
  show ?thesis unfolding d by simp
qed

text \<open>
  C9.  When \<open>list\<close> receives a response with a status in 200 to 299 and a body that
  parses as JSON, the rows become the \<open>items\<close> of the body, the empty sequence when the
  body has no \<open>items\<close>, and the error message is cleared.  This holds for \<open>fetchEquipos\<close>
  whoever called it.
\<close>

theorem list_success:
  "ok st \<Longrightarrow>
   equipos (fst (resume url (AwaitList c) (Response st (Json msg its)) s))
     = (case its of None \<Rightarrow> [] | Some xs \<Rightarrow> xs) \<and>
   error (fst (resume url (AwaitList c) (Response st (Json msg its)) s)) = None"
  by (cases c) (simp_all add: handler_defs items_or_def)

theorem list_success_witness:
  "ok 200 \<and>
   equipos (fst (resume baseUrl_Equipos (AwaitList FromMount)
      (Response 200 (Json None (Some [\<lparr>eq_id = 1, eq_nombre = ''Drill'', eq_tipo = ''Tool'',
         eq_ubicacion = ''Shelf A'', eq_estado = ''Activo''\<rparr>])))
      (init_state\<lparr>loading := True, error := Some ''Failed to fetch''\<rparr>)))
     = [\<lparr>eq_id = 1, eq_nombre = ''Drill'', eq_tipo = ''Tool'', eq_ubicacion = ''Shelf A'',
          eq_estado = ''Activo''\<rparr>] \<and>
   error (fst (resume baseUrl_Equipos (AwaitList FromMount)
      (Response 200 (Json None (Some [\<lparr>eq_id = 1, eq_nombre = ''Drill'', eq_tipo = ''Tool'',
         eq_ubicacion = ''Shelf A'', eq_estado = ''Activo''\<rparr>])))
      (init_state\<lparr>loading := True, error := Some ''Failed to fetch''\<rparr>))) = None"
proof -
  have h: "ok 200" by (simp add: ok_def)
  from h list_success[OF h, of baseUrl_Equipos FromMount None
      "Some [\<lparr>eq_id = 1, eq_nombre = ''Drill'', eq_tipo = ''Tool'',
         eq_ubicacion = ''Shelf A'', eq_estado = ''Activo''\<rparr>]"
      "init_state\<lparr>loading := True, error := Some ''Failed to fetch''\<rparr>"]
  show ?thesis by simp
qed

text \<open>
  C10.  For every draft, a \<open>create\<close> that fails leaves the four fields of the draft as
  they were: \<open>handleSubmit\<close> never changes the draft before the response, whether the
  validation fails or not, and does not change it when \<open>fetch\<close> is rejected, when the
  body is not JSON, or when the status is outside 200 to 299.
\<close>

theorem create_failure_keeps_draft:
  "formValues (fst (handleSubmit_begin url s)) = formValues s \<and>
   formValues (fst (resume url AwaitCreate (Rejected m) s)) = formValues s \<and>
   formValues (fst (resume url AwaitCreate (Response st (Unparseable m)) s)) = formValues s \<and>
   (\<not> ok st \<longrightarrow>
      formValues (fst (resume url AwaitCreate (Response st (Json msg its)) s)) = formValues s)"
  by (simp add: handler_defs Let_def)

theorem create_failure_keeps_draft_witness:
  "\<not> ok 555 \<and>
   formValues (fst (resume baseUrl_Equipos AwaitCreate
      (Response 555 (Json (Some ''bad config'') None))
      (init_state\<lparr>loading := True, formValues := \<lparr>nombre = ''Saw'', tipo = ''Tool'',
         ubicacion = ''Shelf B'', estado = ''Activo''\<rparr>\<rparr>)))
   = \<lparr>nombre = ''Saw'', tipo = ''Tool'', ubicacion = ''Shelf B'', estado = ''Activo''\<rparr>"
proof -
  have h: "\<not> ok 555" by (simp add: ok_def)
  from h create_failure_keeps_draft[where st = 555 and url = baseUrl_Equipos
      and msg = "Some ''bad config''" and its = None
      and s = "init_state\<lparr>loading := True, formValues := \<lparr>nombre = ''Saw'', tipo = ''Tool'',
         ubicacion = ''Shelf B'', estado = ''Activo''\<rparr>\<rparr>"]
  show ?thesis by simp
qed

end
